theory Spec2Isabelle
  imports Main "HOL-Library.Char_ord" "HOL-Library.List_Lexorder"
begin

section \<open>The schema synthesis pipeline of workflow/utils.py\<close>

text \<open>
  The module \<^verbatim>\<open>workflow/utils.py\<close> holds a cache lookup (\<^verbatim>\<open>get_workflow_config\<close>) and the
  pipeline \<^verbatim>\<open>create_pydantic_model\<close>: it writes a JSON sample into a temporary file, runs
  the external tool \<^verbatim>\<open>datamodel-codegen\<close> on it, loads the generated Python file as a
  module, and renders the classes of that module as text.

  The Python code works on the file system, on \<^verbatim>\<open>sys.path\<close>, on the console and through a
  subprocess. The model threads these through every function as a record \<open>world\<close>. What
  lies outside the repository (the JSON encoder, the shell with the external tool, the
  Python interpreter that executes a source file) is a field of the record \<open>env\<close>: a
  function whose results are the ones the Python code can observe.
\<close>

subsection \<open>Results of a call\<close>

text \<open>
  A Python call returns a value, raises an exception, or never comes back (here: it waits
  for a subprocess that does not exit).
\<close>

datatype pyexc =
    TypeError
  | ValueError
  | FileExistsError
  | FileNotFoundError
  | OSError
  | SyntaxError
  | ImportError
  | AttributeError
  | CalledProcessError int string
  | Http404
  | OtherError string

datatype 'a outcome = Returns 'a | Raises pyexc | Blocks

text \<open>Sequencing of two statements: the second runs only when the first returned.\<close>

definition and_then ::
  "('w \<Rightarrow> 'a outcome \<times> 'w) \<Rightarrow> ('a \<Rightarrow> 'w \<Rightarrow> 'b outcome \<times> 'w) \<Rightarrow> 'w \<Rightarrow> 'b outcome \<times> 'w" where
  "and_then first rest w =
     (case first w of
        (Returns v, w') \<Rightarrow> rest v w'
      | (Raises e, w') \<Rightarrow> (Raises e, w')
      | (Blocks, w') \<Rightarrow> (Blocks, w'))"

subsection \<open>Python objects met by the pipeline\<close>

text \<open>
  A type annotation is read through two attributes only: \<^verbatim>\<open>__name__\<close>, which may be
  missing, and \<^verbatim>\<open>repr\<close>. A class is read through its identity, \<^verbatim>\<open>__name__\<close>,
  \<^verbatim>\<open>__module__\<close>, its proper ancestors (for \<^verbatim>\<open>issubclass\<close>) and \<^verbatim>\<open>__annotations__\<close>, a
  dict and so a list of pairs in insertion order.
\<close>

record pyanno =
  anno_name :: "string option"
  anno_repr :: string

record pyclass =
  cls_id :: nat
  cls_name :: string
  cls_module :: string
  cls_ancestors :: "nat list"
  cls_annotations :: "(string \<times> pyanno) list"

datatype pyobj = PyNone | PyClass pyclass | PyOther string

text \<open>
  A module has its \<^verbatim>\<open>__name__\<close> and its namespace, the bindings in the order in which the
  module body made them.
\<close>

record pymodule =
  mod_name :: string
  mod_dict :: "(string \<times> pyobj) list"

definition issubclass :: "pyclass \<Rightarrow> pyclass \<Rightarrow> bool" where
  "issubclass obj base_class \<longleftrightarrow>
     cls_id obj = cls_id base_class \<or> cls_id base_class \<in> set (cls_ancestors obj)"

text \<open>\<^verbatim>\<open>pydantic.BaseModel\<close>, the base class the pipeline filters with.\<close>

definition BaseModel :: pyclass where
  "BaseModel =
     \<lparr>cls_id = 0, cls_name = ''BaseModel'', cls_module = ''pydantic.main'',
      cls_ancestors = [], cls_annotations = []\<rparr>"

subsection \<open>The world and its environment\<close>

datatype console_line = Msg string | MsgExc string pyexc

record world =
  cwd :: string
  files :: "string \<rightharpoonup> string"
  sys_path :: "string list"
  rng :: "string list"
  console :: "console_line list"

text \<open>
  \<open>rng\<close> is the sequence of random file-name stems that \<^verbatim>\<open>tempfile\<close> will draw.

  A subprocess exits with a return code, having possibly written a text to the file
  named by its \<^verbatim>\<open>--output\<close> option; or it cannot be started; or it never exits.
\<close>

datatype proc_outcome = Exited int "string option" | SpawnFailed pyexc | NeverExits

record 'a env =
  json_dumps :: "'a \<Rightarrow> pyexc + string"
  shell :: "string \<Rightarrow> (string \<rightharpoonup> string) \<Rightarrow> proc_outcome"
  compile_source :: "string \<Rightarrow> pyexc + string"
  exec_code :: "string \<Rightarrow> string \<Rightarrow> string \<Rightarrow> (string \<times> pyobj) list outcome"
  cache_tag :: string
  dont_write_bytecode :: bool

text \<open>
  The last four fields are the interpreter behind the \<^verbatim>\<open>importlib\<close> calls.
  \<open>compile_source env source\<close> compiles the text of a file: it gives the exception that
  \<^verbatim>\<open>compile\<close> raises (a \<^verbatim>\<open>SyntaxError\<close>), or the bytes that the interpreter keeps in its
  bytecode cache. \<open>exec_code env name location source\<close> executes the compiled body in a
  fresh module of the given name and gives the namespace it builds, or the exception it
  raises, or it never comes back. \<open>cache_tag\<close> is \<^verbatim>\<open>sys.implementation.cache_tag\<close> (such
  as \<^verbatim>\<open>cpython-311\<close>). \<open>dont_write_bytecode\<close> is \<^verbatim>\<open>sys.dont_write_bytecode\<close>; it also
  stands for a cache directory that cannot be written, where the interpreter gives up
  writing without a word.

  What the model leaves out: the body of a loaded file is taken to change neither the
  files nor \<^verbatim>\<open>sys.path\<close>; the subprocess writes to its output file and to nothing else;
  creating a temporary file fails only when no name is free; \<^verbatim>\<open>print\<close> does not fail;
  directories are not files of the model; the interpreter runs without optimisation
  and without \<^verbatim>\<open>sys.pycache_prefix\<close>.
\<close>

subsection \<open>Paths\<close>

definition NL :: string where
  "NL = [CHR 0x0A]"

definition os_path_join :: "string \<Rightarrow> string \<Rightarrow> string" where
  "os_path_join a b =
     (if b \<noteq> [] \<and> hd b = CHR ''/'' then b
      else if a = [] \<or> last a = CHR ''/'' then a @ b
      else a @ ''/'' @ b)"

definition rstrip :: "char \<Rightarrow> string \<Rightarrow> string" where
  "rstrip c s = rev (dropWhile (\<lambda>x. x = c) (rev s))"

text \<open>\<^verbatim>\<open>str.rfind\<close> for a single character: the last index of \<open>c\<close>, or \<open>-1\<close>.\<close>

definition rfind :: "char \<Rightarrow> string \<Rightarrow> int" where
  "rfind c s =
     (if c \<in> set s then int (length s) - 1 - int (length (takeWhile (\<lambda>x. x \<noteq> c) (rev s)))
      else - 1)"

text \<open>\<^verbatim>\<open>posixpath.split\<close>: head and tail around the last slash.\<close>

definition os_path_split :: "string \<Rightarrow> string \<times> string" where
  "os_path_split p =
     (let i = nat (rfind CHR ''/'' p + 1);
          head = take i p;
          tail = drop i p
      in (if head \<noteq> [] \<and> head \<noteq> replicate (length head) CHR ''/''
          then rstrip CHR ''/'' head else head, tail))"

text \<open>
  \<^verbatim>\<open>posixpath.splitext\<close>: the extension starts at the last dot of the last component,
  unless that component has nothing but dots before it.
\<close>

definition os_path_splitext :: "string \<Rightarrow> string \<times> string" where
  "os_path_splitext p =
     (let sepIndex = rfind CHR ''/'' p;
          dotIndex = rfind CHR ''.'' p
      in if dotIndex > sepIndex \<and>
            filter (\<lambda>x. x \<noteq> CHR ''.'') (take (nat (dotIndex - (sepIndex + 1))) (drop (nat (sepIndex + 1)) p)) \<noteq> []
         then (take (nat dotIndex) p, drop (nat dotIndex) p)
         else (p, []))"

text \<open>
  \<^verbatim>\<open>pathlib.PurePath.stem\<close> of a path in pathlib's normal form (no trailing slash): the
  last component without its last suffix.
\<close>

definition path_stem :: "string \<Rightarrow> string" where
  "path_stem p =
     (let name = drop (nat (rfind CHR ''/'' p + 1)) p;
          i = rfind CHR ''.'' name
      in if 0 < i \<and> i < int (length name) - 1 then take (nat i) name else name)"

subsection \<open>Temporary files\<close>

text \<open>
  \<^verbatim>\<open>tempfile._mkstemp_inner\<close> draws names until one does not exist and creates that file
  exclusively; when every draw exists it raises \<^verbatim>\<open>FileExistsError\<close>.
\<close>

fun mkstemp_inner ::
  "string \<Rightarrow> string \<Rightarrow> string \<Rightarrow> string list \<Rightarrow> (string \<rightharpoonup> string) \<Rightarrow> (string \<times> string list) option" where
  "mkstemp_inner dir pre suf [] fs = None"
| "mkstemp_inner dir pre suf (n # ns) fs =
     (let file = os_path_join dir (pre @ n @ suf)
      in if fs file \<noteq> None then mkstemp_inner dir pre suf ns fs else Some (file, ns))"

text \<open>
  \<^verbatim>\<open>tempfile.NamedTemporaryFile(mode="w+", dir=os.getcwd(), suffix=suffix, delete=True)\<close>:
  the new file is empty, and the result is its name.
\<close>

definition NamedTemporaryFile :: "string \<Rightarrow> world \<Rightarrow> string outcome \<times> world" where
  "NamedTemporaryFile suffix w =
     (case mkstemp_inner (cwd w) ''tmp'' suffix (rng w) (files w) of
        None \<Rightarrow> (Raises FileExistsError, w\<lparr>rng := []\<rparr>)
      | Some (name, rest) \<Rightarrow> (Returns name, w\<lparr>files := (files w)(name \<mapsto> []), rng := rest\<rparr>))"

text \<open>Leaving the \<^verbatim>\<open>with\<close> block closes the file, and closing deletes it.\<close>

definition close_delete :: "string \<Rightarrow> world \<Rightarrow> world" where
  "close_delete name w = w\<lparr>files := (files w)(name := None)\<rparr>"

text \<open>
  \<^verbatim>\<open>with tempfile.NamedTemporaryFile(...) as f: body\<close>. The block is left when the body
  returns and when it raises; a body that never comes back never leaves it.
\<close>

definition with_NamedTemporaryFile ::
  "string \<Rightarrow> (string \<Rightarrow> world \<Rightarrow> 'b outcome \<times> world) \<Rightarrow> world \<Rightarrow> 'b outcome \<times> world" where
  "with_NamedTemporaryFile suffix body w =
     (case NamedTemporaryFile suffix w of
        (Returns name, w1) \<Rightarrow>
          (case body name w1 of
             (Returns v, w2) \<Rightarrow> (Returns v, close_delete name w2)
           | (Raises e, w2) \<Rightarrow> (Raises e, close_delete name w2)
           | (Blocks, w2) \<Rightarrow> (Blocks, w2))
      | (Raises e, w1) \<Rightarrow> (Raises e, w1)
      | (Blocks, w1) \<Rightarrow> (Blocks, w1))"

subsection \<open>\<^verbatim>\<open>get_workflow_config\<close>\<close>

text \<open>
  The cache maps keys to configurations; \<^verbatim>\<open>cache.get\<close> gives \<^verbatim>\<open>None\<close> for a key it does
  not hold. The database maps ids to configurations; \<^verbatim>\<open>get_object_or_404\<close> raises
  \<^verbatim>\<open>Http404\<close> for an id it does not hold. \<open>str_of\<close> is Python's \<^verbatim>\<open>str\<close> on the id, used
  by the f-string. The function reads the cache and never writes it: the cache it leaves
  behind is part of the result.
\<close>

definition get_object_or_404 :: "('i \<rightharpoonup> 'c) \<Rightarrow> 'i \<Rightarrow> 'c outcome" where
  "get_object_or_404 db i = (case db i of None \<Rightarrow> Raises Http404 | Some obj \<Rightarrow> Returns obj)"

definition get_workflow_config ::
  "('i \<Rightarrow> string) \<Rightarrow> ('i \<rightharpoonup> 'c) \<Rightarrow> 'i \<Rightarrow> (string \<rightharpoonup> 'c) \<Rightarrow> 'c option outcome \<times> (string \<rightharpoonup> 'c)" where
  "get_workflow_config str_of db workflow_config cache =
     (let cache_key = ''workflow_config_'' @ str_of workflow_config;
          config = cache cache_key
      in if config = None
         then (case get_object_or_404 db workflow_config of
                 Returns fetched \<Rightarrow> (Returns config, cache)
               | Raises e \<Rightarrow> (Raises e, cache)
               | Blocks \<Rightarrow> (Blocks, cache))
         else (Returns config, cache))"

subsection \<open>The bytecode cache\<close>

text \<open>
  \<^verbatim>\<open>importlib._bootstrap_external\<close> has its own path functions. \<^verbatim>\<open>_path_split\<close> cuts at
  the last slash and strips nothing; \<^verbatim>\<open>_path_join\<close> drops the empty parts, strips the
  trailing slashes of the others and puts one slash between them.
\<close>

definition importlib_path_split :: "string \<Rightarrow> string \<times> string" where
  "importlib_path_split path =
     (let i = rfind CHR ''/'' path
      in if i < 0 then ([], path) else (take (nat i) path, drop (nat (i + 1)) path))"

fun path_sep_join :: "string list \<Rightarrow> string" where
  "path_sep_join [] = []"
| "path_sep_join [part] = part"
| "path_sep_join (part # parts) = part @ ''/'' @ path_sep_join parts"

definition importlib_path_join :: "string list \<Rightarrow> string" where
  "importlib_path_join path_parts =
     path_sep_join (map (rstrip CHR ''/'') (filter (\<lambda>part. part \<noteq> []) path_parts))"

text \<open>\<^verbatim>\<open>str.rpartition\<close> for a single character.\<close>

definition rpartition :: "char \<Rightarrow> string \<Rightarrow> string \<times> string \<times> string" where
  "rpartition c s =
     (if c \<in> set s then (take (nat (rfind c s)) s, [c], drop (nat (rfind c s + 1)) s)
      else ([], [], s))"

text \<open>
  \<^verbatim>\<open>cache_from_source\<close>: the file in which the interpreter keeps the bytecode of a source
  file, \<^verbatim>\<open>__pycache__/<base>.<tag>.pyc\<close> beside the source.
\<close>

definition cache_from_source :: "string \<Rightarrow> string \<Rightarrow> string" where
  "cache_from_source tag path =
     (let (head, tail) = importlib_path_split path;
          (base, sep, rest) = rpartition CHR ''.'' tail;
          almost_filename = (if base \<noteq> [] then base else rest) @ sep @ tag;
          filename = almost_filename @ ''.pyc''
      in importlib_path_join [head, ''__pycache__'', filename])"

subsection \<open>Loading a generated file\<close>

text \<open>
  The \<^verbatim>\<open>importlib\<close> calls shared by \<^verbatim>\<open>import_model_from_generated_file\<close> and
  \<^verbatim>\<open>import_module_from_path\<close>: \<^verbatim>\<open>spec_from_file_location\<close>, \<^verbatim>\<open>module_from_spec\<close> and
  \<^verbatim>\<open>exec_module\<close>. The module gets the name the caller chose.

  \<open>run_source\<close> is what the loader does with the file: a file that is not there raises
  \<^verbatim>\<open>FileNotFoundError\<close>, a text that does not compile raises what \<^verbatim>\<open>compile\<close> raises, and
  a text that compiles is executed.

  \<open>write_cache\<close> is what \<^verbatim>\<open>SourceLoader.get_code\<close> leaves in the file system: once the
  text has compiled, and before it is executed, the bytecode is written to the cache
  file (unless writing is switched off). A cache file is taken to be valid exactly when
  it holds the bytecode of the present source, so a valid one is left as it is.
\<close>

definition run_source ::
  "'a env \<Rightarrow> string \<Rightarrow> string \<Rightarrow> string option \<Rightarrow> (string \<times> pyobj) list outcome" where
  "run_source env module_name location content =
     (case content of
        None \<Rightarrow> Raises FileNotFoundError
      | Some source \<Rightarrow>
          (case compile_source env source of
             Inl e \<Rightarrow> Raises e
           | Inr code \<Rightarrow> exec_code env module_name location source))"

definition write_cache :: "'a env \<Rightarrow> string \<Rightarrow> world \<Rightarrow> world" where
  "write_cache env location w =
     (case files w location of
        None \<Rightarrow> w
      | Some source \<Rightarrow>
          (case compile_source env source of
             Inl e \<Rightarrow> w
           | Inr code \<Rightarrow>
               if dont_write_bytecode env then w
               else w\<lparr>files := (files w)(cache_from_source (cache_tag env) location \<mapsto> code)\<rparr>))"

definition load_module :: "'a env \<Rightarrow> string \<Rightarrow> string \<Rightarrow> world \<Rightarrow> pymodule outcome \<times> world" where
  "load_module env module_name location w =
     (case run_source env module_name location (files w location) of
        Returns ns \<Rightarrow>
          (Returns \<lparr>mod_name = module_name, mod_dict = ns\<rparr>, write_cache env location w)
      | Raises e \<Rightarrow> (Raises e, write_cache env location w)
      | Blocks \<Rightarrow> (Blocks, write_cache env location w))"

text \<open>\<^verbatim>\<open>getattr(module, name, default)\<close>.\<close>

definition getattr_default :: "pymodule \<Rightarrow> string \<Rightarrow> pyobj \<Rightarrow> pyobj" where
  "getattr_default module name dflt =
     (case map_of (mod_dict module) name of None \<Rightarrow> dflt | Some v \<Rightarrow> v)"

definition import_model_from_generated_file ::
  "'a env \<Rightarrow> string \<Rightarrow> world \<Rightarrow> pyobj outcome \<times> world" where
  "import_model_from_generated_file env file_path w =
     (let (directory, module_name) = os_path_split file_path;
          module_name = fst (os_path_splitext module_name);
          w1 = (if directory \<notin> set (sys_path w)
                then w\<lparr>sys_path := sys_path w @ [directory]\<rparr> else w)
      in and_then (load_module env module_name file_path)
           (\<lambda>module w2. (Returns (getattr_default module ''Model'' PyNone), w2)) w1)"

definition import_module_from_path :: "'a env \<Rightarrow> string \<Rightarrow> world \<Rightarrow> pymodule outcome \<times> world" where
  "import_module_from_path env path w =
     (let module_name = path_stem path
      in load_module env module_name path w)"

subsection \<open>\<^verbatim>\<open>get_classes_from_module\<close>\<close>

text \<open>
  \<^verbatim>\<open>inspect.getmembers(module, inspect.isclass)\<close>: the bindings whose value is a class,
  sorted by name (\<^verbatim>\<open>getmembers\<close> ends with \<^verbatim>\<open>results.sort(key=lambda pair: pair[0])\<close>).
\<close>

fun class_members :: "(string \<times> pyobj) list \<Rightarrow> (string \<times> pyclass) list" where
  "class_members [] = []"
| "class_members ((name, PyClass c) # rest) = (name, c) # class_members rest"
| "class_members ((name, other) # rest) = class_members rest"

definition getmembers_isclass :: "pymodule \<Rightarrow> (string \<times> pyclass) list" where
  "getmembers_isclass module = sort_key fst (class_members (mod_dict module))"

definition field_type_name :: "pyanno \<Rightarrow> string" where
  "field_type_name field_type =
     (case anno_name field_type of Some n \<Rightarrow> n | None \<Rightarrow> anno_repr field_type)"

text \<open>The inner loop over \<^verbatim>\<open>obj.__annotations__.items()\<close>.\<close>

fun fields_loop :: "(string \<times> pyanno) list \<Rightarrow> string \<Rightarrow> string" where
  "fields_loop [] class_details = class_details"
| "fields_loop ((field_name, field_type) # rest) class_details =
     fields_loop rest
       (class_details @ ''  '' @ field_name @ '': '' @ field_type_name field_type @ NL)"

text \<open>The outer loop over the members.\<close>

fun members_loop :: "pymodule \<Rightarrow> pyclass \<Rightarrow> (string \<times> pyclass) list \<Rightarrow> string \<Rightarrow> string" where
  "members_loop module base_class [] class_details = class_details"
| "members_loop module base_class ((name, obj) # rest) class_details =
     members_loop module base_class rest
       (if issubclass obj base_class \<and> cls_module obj = mod_name module
        then fields_loop (cls_annotations obj)
               (class_details @ NL @ ''class '' @ name @ ''('' @ cls_name base_class @ ''):'' @ NL)
        else class_details)"

definition get_classes_from_module ::
  "'a env \<Rightarrow> string \<Rightarrow> pyclass \<Rightarrow> world \<Rightarrow> string outcome \<times> world" where
  "get_classes_from_module env path base_class w =
     and_then (import_module_from_path env path)
       (\<lambda>module w1.
          (Returns (members_loop module base_class (getmembers_isclass module) []), w1)) w"

subsection \<open>\<^verbatim>\<open>create_pydantic_model\<close>\<close>

text \<open>
  \<^verbatim>\<open>json.dump(jsonData, tmp_json)\<close> and \<^verbatim>\<open>tmp_json.flush()\<close>: the text is in the file, or
  the encoder raised.
\<close>

definition json_dump :: "'a env \<Rightarrow> 'a \<Rightarrow> string \<Rightarrow> world \<Rightarrow> unit outcome \<times> world" where
  "json_dump env jsonData tmp_json w =
     (case json_dumps env jsonData of
        Inl e \<Rightarrow> (Raises e, w)
      | Inr text \<Rightarrow> (Returns (), w\<lparr>files := (files w)(tmp_json \<mapsto> text)\<rparr>))"

definition codegen_command :: "string \<Rightarrow> string \<Rightarrow> string" where
  "codegen_command tmp_json tmp_py =
     ''datamodel-codegen --input '' @ tmp_json @ '' --output '' @ tmp_py"

text \<open>
  \<^verbatim>\<open>subprocess.run(command, check=True, shell=True)\<close>. No \<^verbatim>\<open>timeout\<close> is passed, so the
  call waits until the process exits. With \<^verbatim>\<open>check=True\<close> a return code other than zero
  raises \<^verbatim>\<open>CalledProcessError\<close>. \<open>output\<close> is the file the command names as its output.
\<close>

definition subprocess_run :: "'a env \<Rightarrow> string \<Rightarrow> string \<Rightarrow> world \<Rightarrow> unit outcome \<times> world" where
  "subprocess_run env command output w =
     (case shell env command (files w) of
        Exited returncode written \<Rightarrow>
          (let w1 = (case written of
                       None \<Rightarrow> w
                     | Some text \<Rightarrow> w\<lparr>files := (files w)(output \<mapsto> text)\<rparr>)
           in if returncode \<noteq> 0 then (Raises (CalledProcessError returncode command), w1)
              else (Returns (), w1))
      | SpawnFailed e \<Rightarrow> (Raises e, w)
      | NeverExits \<Rightarrow> (Blocks, w))"

definition print :: "console_line \<Rightarrow> world \<Rightarrow> world" where
  "print line w = w\<lparr>console := console w @ [line]\<rparr>"

text \<open>
  The \<^verbatim>\<open>try\<close> statement: \<^verbatim>\<open>CalledProcessError\<close> is caught and printed, every other
  exception goes on.
\<close>

definition run_codegen :: "'a env \<Rightarrow> string \<Rightarrow> string \<Rightarrow> world \<Rightarrow> unit outcome \<times> world" where
  "run_codegen env tmp_json tmp_py w =
     (let command = codegen_command tmp_json tmp_py
      in case subprocess_run env command tmp_py w of
           (Returns u, w1) \<Rightarrow> (Returns (), print (Msg ''model generation successful'') w1)
         | (Raises e, w1) \<Rightarrow>
             (case e of
                CalledProcessError returncode cmd \<Rightarrow>
                  (Returns (),
                   print (MsgExc ''An error occurred while generating the pydantic model:'' e) w1)
              | _ \<Rightarrow> (Raises e, w1))
         | (Blocks, w1) \<Rightarrow> (Blocks, w1))"

definition create_pydantic_model ::
  "'a env \<Rightarrow> 'a \<Rightarrow> world \<Rightarrow> (pyobj \<times> string) outcome \<times> world" where
  "create_pydantic_model env jsonData w =
     with_NamedTemporaryFile ''.json''
       (\<lambda>tmp_json.
          and_then (json_dump env jsonData tmp_json)
            (\<lambda>u. with_NamedTemporaryFile ''.py''
               (\<lambda>tmp_py.
                  and_then (run_codegen env tmp_json tmp_py)
                    (\<lambda>u. and_then (import_model_from_generated_file env tmp_py)
                       (\<lambda>Model. and_then (get_classes_from_module env tmp_py BaseModel)
                          (\<lambda>class_string w'. (Returns (Model, class_string), w'))))))) w"

subsection \<open>The text that \<^verbatim>\<open>get_classes_from_module\<close> is meant to build\<close>

text \<open>
  The following functions say what the rendering is, without the accumulator of the
  loops: the line of a field, the header line of a class, the descriptor of a class
  (header line, then one line for each field), and descriptors set apart by one
  empty line. \<open>qualifying\<close> lists the members that pass the test of the loop.
\<close>

definition field_line :: "string \<times> pyanno \<Rightarrow> string" where
  "field_line =
     (\<lambda>(field_name, field_type). ''  '' @ field_name @ '': '' @ field_type_name field_type @ NL)"

definition header_line :: "pyclass \<Rightarrow> string \<Rightarrow> string" where
  "header_line base_class name = ''class '' @ name @ ''('' @ cls_name base_class @ ''):'' @ NL"

definition descriptor :: "pyclass \<Rightarrow> string \<times> pyclass \<Rightarrow> string" where
  "descriptor base_class =
     (\<lambda>(name, obj). header_line base_class name @ concat (map field_line (cls_annotations obj)))"

definition qualifies :: "pymodule \<Rightarrow> pyclass \<Rightarrow> string \<times> pyclass \<Rightarrow> bool" where
  "qualifies module base_class =
     (\<lambda>(name, obj). issubclass obj base_class \<and> cls_module obj = mod_name module)"

definition qualifying :: "pymodule \<Rightarrow> pyclass \<Rightarrow> (string \<times> pyclass) list" where
  "qualifying module base_class =
     filter (qualifies module base_class) (getmembers_isclass module)"

fun blank_separated :: "string list \<Rightarrow> string" where
  "blank_separated [] = []"
| "blank_separated [d] = d"
| "blank_separated (d # ds) = d @ NL @ blank_separated ds"

subsection \<open>Several loads in a row\<close>

text \<open>
  A sequence of calls of \<^verbatim>\<open>import_model_from_generated_file\<close>: each call starts in the
  world that the call before it left behind, whatever its outcome was.
\<close>

fun load_calls :: "'a env \<Rightarrow> string list \<Rightarrow> world \<Rightarrow> world" where
  "load_calls env [] w = w"
| "load_calls env (file_path # rest) w =
     load_calls env rest (snd (import_model_from_generated_file env file_path w))"

subsection \<open>A concrete environment\<close>

text \<open>
  Used to run the functions on explicit inputs. A sample is its own JSON text. The
  external tool does what the parameter \<open>tool\<close> says. The interpreter knows five
  texts that compile: \<^verbatim>\<open>generated\<close> declares \<^verbatim>\<open>Model\<close> before \<^verbatim>\<open>Item\<close> and imports
  \<^verbatim>\<open>BaseModel\<close> and \<^verbatim>\<open>Any\<close>; \<^verbatim>\<open>no model\<close> declares \<^verbatim>\<open>Item\<close> only; \<^verbatim>\<open>alias\<close> declares
  \<^verbatim>\<open>Model\<close> and binds it a second time by \<^verbatim>\<open>Alias = Model\<close>; \<^verbatim>\<open>import missing\<close> raises
  \<^verbatim>\<open>ImportError\<close> when it is executed; the empty text gives an empty namespace. Every
  other text is a syntax error. Bytecode is written, under the tag of CPython 3.11.
\<close>

definition demo_Model :: "string \<Rightarrow> pyclass" where
  "demo_Model n =
     \<lparr>cls_id = 2, cls_name = ''Model'', cls_module = n, cls_ancestors = [0],
      cls_annotations =
        [(''question'', \<lparr>anno_name = Some ''str'', anno_repr = ''<class 'str'>''\<rparr>),
         (''tags'', \<lparr>anno_name = Some ''List'', anno_repr = ''typing.List[str]''\<rparr>),
         (''note'', \<lparr>anno_name = None, anno_repr = ''str | None''\<rparr>)]\<rparr>"

definition demo_Item :: "string \<Rightarrow> pyclass" where
  "demo_Item n =
     \<lparr>cls_id = 1, cls_name = ''Item'', cls_module = n, cls_ancestors = [0],
      cls_annotations = [(''a'', \<lparr>anno_name = Some ''int'', anno_repr = ''<class 'int'>''\<rparr>)]\<rparr>"

definition demo_source :: "string \<Rightarrow> (string \<times> pyobj) list" where
  "demo_source n =
     [(''Model'', PyClass (demo_Model n)),
      (''BaseModel'', PyClass BaseModel),
      (''Item'', PyClass (demo_Item n)),
      (''Any'', PyOther ''typing.Any'')]"

definition demo_alias_source :: "string \<Rightarrow> (string \<times> pyobj) list" where
  "demo_alias_source n =
     [(''BaseModel'', PyClass BaseModel),
      (''Model'', PyClass (demo_Model n)),
      (''Alias'', PyClass (demo_Model n))]"

definition demo_compile :: "string \<Rightarrow> pyexc + string" where
  "demo_compile source =
     (if source \<in> {''generated'', ''no model'', ''alias'', ''import missing'', []}
      then Inr (''bytecode of '' @ source)
      else Inl SyntaxError)"

definition demo_exec :: "string \<Rightarrow> string \<Rightarrow> string \<Rightarrow> (string \<times> pyobj) list outcome" where
  "demo_exec n location source =
     (if source = ''generated'' then Returns (demo_source n)
      else if source = ''no model'' then Returns [(''Item'', PyClass (demo_Item n))]
      else if source = ''alias'' then Returns (demo_alias_source n)
      else if source = ''import missing'' then Raises ImportError
      else Returns [])"

definition demo_env :: "proc_outcome \<Rightarrow> string env" where
  "demo_env tool =
     \<lparr>json_dumps = (\<lambda>sample. Inr sample),
      shell = (\<lambda>command fs. tool),
      compile_source = demo_compile,
      exec_code = demo_exec,
      cache_tag = ''cpython-311'',
      dont_write_bytecode = False\<rparr>"

definition demo_world :: world where
  "demo_world =
     \<lparr>cwd = ''/srv'',
      files = [''/srv/tmpm.py'' \<mapsto> ''generated'', ''/srv/tmpq.py'' \<mapsto> ''alias''],
      sys_path = [''/usr/lib''],
      rng = [''m'', ''m'', ''a'', ''b''], console = []\<rparr>"

definition demo_module :: pymodule where
  "demo_module = \<lparr>mod_name = ''tmpm'', mod_dict = demo_source ''tmpm''\<rparr>"

text \<open>
  The worlds that a run of \<^verbatim>\<open>create_pydantic_model\<close> on \<open>demo_world\<close> goes through: after the
  JSON file was created, after the sample was written, after the Python file was
  created (the name \<^verbatim>\<open>tmpm.py\<close> is taken, so the next draw is used).
\<close>

definition demo_w1 :: world where
  "demo_w1 = demo_world\<lparr>files := (files demo_world)(''/srv/tmpm.json'' \<mapsto> []), rng := [''m'', ''a'', ''b'']\<rparr>"

definition demo_w2 :: world where
  "demo_w2 = demo_w1\<lparr>files := (files demo_w1)(''/srv/tmpm.json'' \<mapsto> ''{}'')\<rparr>"

definition demo_w3 :: world where
  "demo_w3 = demo_w2\<lparr>files := (files demo_w2)(''/srv/tmpa.py'' \<mapsto> []), rng := [''b'']\<rparr>"

text \<open>The world after the file \<^verbatim>\<open>/srv/tmpm.py\<close> was loaded: its bytecode is cached.\<close>

definition demo_world_loaded :: world where
  "demo_world_loaded =
     demo_world\<lparr>files := (files demo_world)
        (''/srv/__pycache__/tmpm.cpython-311.pyc'' \<mapsto> ''bytecode of generated'')\<rparr>"

section \<open>Properties\<close>

subsection \<open>The loops and the rendering\<close>

lemma fields_loop_append:
  "fields_loop fs acc = acc @ concat (map field_line fs)"
  by (induction fs arbitrary: acc) (auto simp: field_line_def)

lemma class_step:
  "fields_loop (cls_annotations obj)
     (cd @ NL @ ''class '' @ name @ ''('' @ cls_name b @ ''):'' @ NL) =
   cd @ NL @ descriptor b (name, obj)"
  by (simp add: fields_loop_append descriptor_def header_line_def)

lemma members_loop_append:
  "members_loop m b ms acc =
     acc @ concat (map (\<lambda>d. NL @ descriptor b d) (filter (qualifies m b) ms))"
proof (induction ms arbitrary: acc)
  case Nil
  show ?case by simp
next
  case (Cons a ms)
  obtain name obj where a: "a = (name, obj)" by (cases a)
  show ?case
  proof (cases "qualifies m b (name, obj)")
    case True
    then have q: "issubclass obj b \<and> cls_module obj = mod_name m"
      by (simp add: qualifies_def)
    show ?thesis
      unfolding a using True q
      by (simp only: members_loop.simps if_True class_step Cons.IH) simp
  next
    case False
    then have q: "\<not> (issubclass obj b \<and> cls_module obj = mod_name m)"
      by (simp add: qualifies_def)
    show ?thesis
      unfolding a using False q
      by (simp only: members_loop.simps if_False Cons.IH) simp
  qed
qed

lemma concat_NL_blank_separated:
  "ds \<noteq> [] \<Longrightarrow> concat (map (\<lambda>d. NL @ d) ds) = NL @ blank_separated ds"
  by (induction ds rule: blank_separated.induct) auto

lemma get_classes_from_module_loaded:
  assumes "import_module_from_path env path w = (Returns module, w1)"
  shows "get_classes_from_module env path base_class w =
           (Returns (concat (map (\<lambda>d. NL @ descriptor base_class d)
                                (qualifying module base_class))), w1)"
  using assms
  by (simp add: get_classes_from_module_def and_then_def members_loop_append qualifying_def)

subsection \<open>The members of a module\<close>

lemma set_class_members:
  "set (class_members d) = {(n, c). (n, PyClass c) \<in> set d}"
  by (induction d rule: class_members.induct) auto

lemma distinct_class_members:
  "distinct (map fst d) \<Longrightarrow> distinct (map fst (class_members d))"
  by (induction d rule: class_members.induct) (auto simp: set_class_members image_iff)

lemma sorted_distinct_keys_unique:
  assumes "sorted (map f xs)" "distinct (map f xs)" "sorted (map f ys)" "distinct (map f ys)"
    and "set xs = set ys"
  shows "xs = ys"
proof -
  have "set (map f xs) = set (map f ys)"
    using assms(5) by simp
  then have "map f xs = map f ys"
    using assms(1-4) by (intro sorted_distinct_set_unique) auto
  moreover have "inj_on f (set xs \<union> set ys)"
    using assms(2,5) by (simp add: distinct_map)
  ultimately show ?thesis
    by (rule map_inj_on)
qed

lemma sort_key_permutation:
  assumes "distinct (map f xs)" "distinct (map f ys)" "set xs = set ys"
  shows "sort_key f xs = sort_key f ys"
proof (rule sorted_distinct_keys_unique[where f = f])
  show "distinct (map f (sort_key f xs))"
    using assms(1) by (simp add: distinct_map)
  show "distinct (map f (sort_key f ys))"
    using assms(2) by (simp add: distinct_map)
  show "set (sort_key f xs) = set (sort_key f ys)"
    using assms(3) by simp
qed simp_all

lemma sorted_qualifying: "sorted (map fst (qualifying m b))"
  unfolding qualifying_def getmembers_isclass_def
  by (simp add: sorted_filter)


lemma qualifying_permutation:
  assumes "mod_name m' = mod_name m" "set (mod_dict m') = set (mod_dict m)"
    and "distinct (map fst (mod_dict m'))" "distinct (map fst (mod_dict m))"
  shows "qualifying m' b = qualifying m b"
proof -
  have "sort_key fst (class_members (mod_dict m')) = sort_key fst (class_members (mod_dict m))"
    using assms
    by (intro sort_key_permutation distinct_class_members) (simp_all add: set_class_members)
  moreover have "qualifies m' b = qualifies m b"
    using assms(1) by (simp add: qualifies_def)
  ultimately show ?thesis
    by (simp add: qualifying_def getmembers_isclass_def)
qed

subsection \<open>The concrete environment at work\<close>

lemmas path_defs =
  os_path_join_def os_path_split_def os_path_splitext_def rfind_def rstrip_def path_stem_def
  importlib_path_split_def importlib_path_join_def rpartition_def cache_from_source_def

lemma demo_cache_tmpm:
  "cache_from_source ''cpython-311'' ''/srv/tmpm.py'' = ''/srv/__pycache__/tmpm.cpython-311.pyc''"
  by (simp add: path_defs Let_def)


lemma demo_load:
  "import_module_from_path (demo_env tool) ''/srv/tmpm.py'' demo_world =
     (Returns demo_module, demo_world_loaded)"
  by (simp add: import_module_from_path_def load_module_def run_source_def write_cache_def
        path_stem_def rfind_def demo_cache_tmpm demo_env_def demo_exec_def demo_compile_def
        demo_world_def demo_world_loaded_def demo_module_def Let_def)

lemma demo_qualifying:
  "qualifying demo_module BaseModel = [(''Item'', demo_Item ''tmpm''), (''Model'', demo_Model ''tmpm'')]"
  by (simp add: qualifying_def getmembers_isclass_def demo_module_def demo_source_def
        qualifies_def issubclass_def BaseModel_def demo_Item_def demo_Model_def)

lemma demo_tmp_json:
  "NamedTemporaryFile ''.json'' demo_world = (Returns ''/srv/tmpm.json'', demo_w1)"
  by (simp add: NamedTemporaryFile_def os_path_join_def demo_world_def demo_w1_def Let_def)

lemma demo_json_dump:
  "json_dump (demo_env tool) ''{}'' ''/srv/tmpm.json'' demo_w1 = (Returns (), demo_w2)"
  by (simp add: json_dump_def demo_env_def demo_w2_def)

lemma demo_tmp_py:
  "NamedTemporaryFile ''.py'' demo_w2 = (Returns ''/srv/tmpa.py'', demo_w3)"
  by (simp add: NamedTemporaryFile_def os_path_join_def demo_world_def demo_w1_def demo_w2_def
        demo_w3_def Let_def)

subsection \<open>File names\<close>

lemma last_os_path_join: "b \<noteq> [] \<Longrightarrow> last (os_path_join a b) = last b"
  by (simp add: os_path_join_def)

lemma os_path_join_not_Nil: "b \<noteq> [] \<Longrightarrow> os_path_join a b \<noteq> []"
  by (simp add: os_path_join_def)

lemma mkstemp_inner_last:
  "mkstemp_inner dir pre suf ns fs = Some (file, rest) \<Longrightarrow> suf \<noteq> [] \<Longrightarrow>
     file \<noteq> [] \<and> last file = last suf"
  by (induction ns)
     (auto simp: Let_def last_os_path_join os_path_join_not_Nil split: if_splits)

lemma NamedTemporaryFile_last:
  "NamedTemporaryFile suffix w = (Returns name, w1) \<Longrightarrow> suffix \<noteq> [] \<Longrightarrow>
     name \<noteq> [] \<and> last name = last suffix"
  by (auto simp: NamedTemporaryFile_def split: option.splits dest: mkstemp_inner_last)

lemma rstrip_pyc: "rstrip CHR ''/'' (x @ ''.pyc'') = x @ ''.pyc''"
  by (simp add: rstrip_def)

lemma rstrip_pycache: "rstrip CHR ''/'' ''__pycache__'' = ''__pycache__''"
  by (simp add: rstrip_def)

lemma importlib_path_join_cache:
  "importlib_path_join [head, ''__pycache__'', x @ ''.pyc''] =
     (if head = [] then [] else rstrip CHR ''/'' head @ ''/'') @ ''__pycache__/'' @ x @ ''.pyc''"
  by (simp add: importlib_path_join_def rstrip_pyc rstrip_pycache)

lemma last_cache_from_source:
  "cache_from_source tag path \<noteq> [] \<and> last (cache_from_source tag path) = CHR ''c''"
proof -
  obtain head tail where s: "importlib_path_split path = (head, tail)"
    by (cases "importlib_path_split path")
  obtain base sep rest where r: "rpartition CHR ''.'' tail = (base, sep, rest)"
    by (cases "rpartition CHR ''.'' tail") auto
  have "cache_from_source tag path =
      importlib_path_join [head, ''__pycache__'', ((if base \<noteq> [] then base else rest) @ sep @ tag) @ ''.pyc'']"
    by (simp add: cache_from_source_def s r Let_def)
  then show ?thesis
    by (simp only: importlib_path_join_cache) simp
qed

lemma tmp_py_not_cache:
  assumes "NamedTemporaryFile ''.py'' w = (Returns tmp_py, w1)"
  shows "tmp_py \<noteq> cache_from_source tag path"
  using NamedTemporaryFile_last[OF assms] last_cache_from_source[of tag path]
  by auto

subsection \<open>What a call leaves in the file system\<close>

lemma mkstemp_inner_fresh:
  "mkstemp_inner dir pre suf ns fs = Some (file, rest) \<Longrightarrow> fs file = None"
  by (induction ns) (auto simp: Let_def split: if_splits)

lemma NamedTemporaryFile_cases:
  obtains (created) name rest where "mkstemp_inner (cwd w) ''tmp'' suffix (rng w) (files w) = Some (name, rest)"
      "NamedTemporaryFile suffix w = (Returns name, w\<lparr>files := (files w)(name \<mapsto> []), rng := rest\<rparr>)"
      "files w name = None"
    | (exhausted) "NamedTemporaryFile suffix w = (Raises FileExistsError, w\<lparr>rng := []\<rparr>)"
proof (cases "mkstemp_inner (cwd w) ''tmp'' suffix (rng w) (files w)")
  case None
  then show ?thesis using exhausted by (simp add: NamedTemporaryFile_def)
next
  case (Some a)
  obtain name rest where "a = (name, rest)" by (cases a)
  with Some show ?thesis using created[of name rest] mkstemp_inner_fresh[of "cwd w" "''tmp''" suffix "rng w" "files w" name rest]
    by (simp add: NamedTemporaryFile_def)
qed

lemma NamedTemporaryFile_Returns:
  assumes "NamedTemporaryFile suffix w = (Returns name, w1)"
  shows "files w name = None \<and> files w1 = (files w)(name \<mapsto> [])"
  using assms by (cases rule: NamedTemporaryFile_cases[where w = w and suffix = suffix]) auto

lemma and_then_cases:
  assumes "and_then first rest w = (r, w')"
  obtains (ran) v w1 where "first w = (Returns v, w1)" "rest v w1 = (r, w')"
    | (raised) e where "first w = (Raises e, w')" "r = Raises e"
    | (blocked) "first w = (Blocks, w')" "r = Blocks"
  using assms by (auto simp: and_then_def split: prod.splits outcome.splits)

lemma json_dump_files:
  "json_dump env x tmp_json w = (r, w') \<Longrightarrow> p \<noteq> tmp_json \<Longrightarrow> files w' p = files w p"
  by (auto simp: json_dump_def split: sum.splits)

lemma subprocess_run_files:
  "subprocess_run env command output w = (r, w') \<Longrightarrow> p \<noteq> output \<Longrightarrow> files w' p = files w p"
  by (auto simp: subprocess_run_def Let_def split: proc_outcome.splits option.splits if_splits)

lemma run_codegen_files:
  "run_codegen env tmp_json tmp_py w = (r, w') \<Longrightarrow> p \<noteq> tmp_py \<Longrightarrow> files w' p = files w p"
  by (cases "subprocess_run env (codegen_command tmp_json tmp_py) tmp_py w")
     (auto simp: run_codegen_def Let_def print_def dest: subprocess_run_files
           split: outcome.splits pyexc.splits)

lemma write_cache_files:
  "dont_write_bytecode env \<or> p \<noteq> cache_from_source (cache_tag env) location \<Longrightarrow>
     files (write_cache env location w) p = files w p"
  by (auto simp: write_cache_def split: option.splits sum.splits)

lemma write_cache_other [simp]:
  "sys_path (write_cache env location w) = sys_path w"
  "console (write_cache env location w) = console w"
  "cwd (write_cache env location w) = cwd w"
  "rng (write_cache env location w) = rng w"
  by (simp_all add: write_cache_def split: option.splits sum.splits)

lemma write_cache_sys_path_update:
  "write_cache env location (w\<lparr>sys_path := sp\<rparr>) = (write_cache env location w)\<lparr>sys_path := sp\<rparr>"
  by (simp add: write_cache_def split: option.splits sum.splits)

lemma load_module_world:
  "load_module env n location w = (r, w') \<Longrightarrow> w' = write_cache env location w"
  by (auto simp: load_module_def split: outcome.splits)

lemma import_model_world:
  assumes "import_model_from_generated_file env file_path w = (r, w')"
  shows "files w' = files (write_cache env file_path w) \<and> console w' = console w"
proof -
  obtain directory tail where s: "os_path_split file_path = (directory, tail)"
    by (cases "os_path_split file_path")
  let ?w1 = "if directory \<notin> set (sys_path w) then w\<lparr>sys_path := sys_path w @ [directory]\<rparr> else w"
  from assms have "and_then (load_module env (fst (os_path_splitext tail)) file_path)
      (\<lambda>module w2. (Returns (getattr_default module ''Model'' PyNone), w2)) ?w1 = (r, w')"
    by (simp add: import_model_from_generated_file_def s Let_def)
  then have "w' = write_cache env file_path ?w1"
    by (cases rule: and_then_cases) (auto dest: load_module_world)
  then show ?thesis
    by (simp add: write_cache_sys_path_update)
qed

lemma import_model_files:
  assumes "import_model_from_generated_file env file_path w = (r, w')"
    and "dont_write_bytecode env \<or> p \<noteq> cache_from_source (cache_tag env) file_path"
  shows "files w' p = files w p"
  using import_model_world[OF assms(1)] write_cache_files[OF assms(2)] by simp

lemma get_classes_world:
  "get_classes_from_module env path base_class w = (r, w') \<Longrightarrow> w' = write_cache env path w"
  by (auto simp: get_classes_from_module_def import_module_from_path_def Let_def
           elim!: and_then_cases dest!: load_module_world)

lemma get_classes_files:
  assumes "get_classes_from_module env path base_class w = (r, w')"
    and "dont_write_bytecode env \<or> p \<noteq> cache_from_source (cache_tag env) path"
  shows "files w' p = files w p"
  using get_classes_world[OF assms(1)] write_cache_files[OF assms(2)] by simp

lemma inner_body_files:
  assumes "and_then (run_codegen env tmp_json tmp_py)
             (\<lambda>u. and_then (import_model_from_generated_file env tmp_py)
                (\<lambda>Model. and_then (get_classes_from_module env tmp_py BaseModel)
                   (\<lambda>class_string w'. (Returns (Model, class_string), w')))) w1 = (r, w2)"
    and "p \<noteq> tmp_py"
    and c: "dont_write_bytecode env \<or> p \<noteq> cache_from_source (cache_tag env) tmp_py"
  shows "files w2 p = files w1 p"
  using assms(1)
proof (cases rule: and_then_cases)
  case (ran u wa)
  note gen = run_codegen_files[OF ran(1) assms(2)]
  from ran(2) show ?thesis
  proof (cases rule: and_then_cases)
    case (ran Model wb)
    note imp = import_model_files[OF ran(1) c]
    from ran(2) show ?thesis
    proof (cases rule: and_then_cases)
      case (ran class_string wc)
      with get_classes_files[OF ran(1) c] imp gen show ?thesis by simp
    next
      case (raised e)
      with get_classes_files[OF raised(1) c] imp gen show ?thesis by simp
    next
      case blocked
      with get_classes_files[OF blocked(1) c] imp gen show ?thesis by simp
    qed
  next
    case (raised e)
    with import_model_files[OF raised(1) c] gen show ?thesis by simp
  next
    case blocked
    with import_model_files[OF blocked(1) c] gen show ?thesis by simp
  qed
next
  case (raised e)
  from run_codegen_files[OF raised(1) assms(2)] show ?thesis .
next
  case blocked
  from run_codegen_files[OF blocked(1) assms(2)] show ?thesis .
qed

subsection \<open>The steps of \<^verbatim>\<open>create_pydantic_model\<close>\<close>

lemmas run_defs =
  create_pydantic_model_def with_NamedTemporaryFile_def NamedTemporaryFile_def
  and_then_def json_dump_def run_codegen_def subprocess_run_def codegen_command_def print_def
  close_delete_def import_model_from_generated_file_def path_defs
  load_module_def run_source_def write_cache_def getattr_default_def get_classes_from_module_def
  import_module_from_path_def demo_env_def demo_exec_def demo_compile_def demo_world_def Let_def

lemma create_pydantic_model_trace:
  assumes "NamedTemporaryFile ''.json'' w = (Returns tmp_json, w1)"
    and "json_dump env jsonData tmp_json w1 = (Returns (), w2)"
    and "NamedTemporaryFile ''.py'' w2 = (Returns tmp_py, w3)"
  shows "create_pydantic_model env jsonData w =
     (case and_then (run_codegen env tmp_json tmp_py)
             (\<lambda>u. and_then (import_model_from_generated_file env tmp_py)
                (\<lambda>Model. and_then (get_classes_from_module env tmp_py BaseModel)
                   (\<lambda>class_string w'. (Returns (Model, class_string), w')))) w3 of
        (Returns v, w4) \<Rightarrow> (Returns v, close_delete tmp_json (close_delete tmp_py w4))
      | (Raises e, w4) \<Rightarrow> (Raises e, close_delete tmp_json (close_delete tmp_py w4))
      | (Blocks, w4) \<Rightarrow> (Blocks, w4))"
  by (simp add: create_pydantic_model_def with_NamedTemporaryFile_def and_then_def assms
           split: prod.splits outcome.splits)

text \<open>
  The file system after a call that got as far as creating both temporary files and
  then came back: both are gone, and every other file, the cache file of the generated
  source apart, is as it was.
\<close>

lemma create_pydantic_model_frame:
  assumes tj: "NamedTemporaryFile ''.json'' w = (Returns tmp_json, w1)"
    and jd: "json_dump env jsonData tmp_json w1 = (Returns (), w2)"
    and tp: "NamedTemporaryFile ''.py'' w2 = (Returns tmp_py, w3)"
    and run: "create_pydantic_model env jsonData w = (r, w')" and r: "r \<noteq> Blocks"
  shows "files w' tmp_json = None \<and> files w' tmp_py = None
         \<and> (\<forall>p. dont_write_bytecode env \<or> p \<noteq> cache_from_source (cache_tag env) tmp_py
                \<longrightarrow> files w' p = files w p)"
proof -
  let ?inner = "and_then (run_codegen env tmp_json tmp_py)
             (\<lambda>u. and_then (import_model_from_generated_file env tmp_py)
                (\<lambda>Model. and_then (get_classes_from_module env tmp_py BaseModel)
                   (\<lambda>class_string w'. (Returns (Model, class_string), w'))))"
  obtain ri w4 where inner: "?inner w3 = (ri, w4)"
    by (cases "?inner w3")
  have w': "w' = close_delete tmp_json (close_delete tmp_py w4)"
    using run r inner
    by (auto simp: create_pydantic_model_trace[OF tj jd tp] split: outcome.splits)
  have f1: "files w tmp_json = None" "files w1 = (files w)(tmp_json \<mapsto> [])"
    using NamedTemporaryFile_Returns[OF tj] by simp_all
  have f2: "\<forall>p. p \<noteq> tmp_json \<longrightarrow> files w2 p = files w1 p" "files w2 tmp_json \<noteq> None"
    using jd by (auto simp: json_dump_def split: sum.splits)
  have f3: "files w2 tmp_py = None" "files w3 = (files w2)(tmp_py \<mapsto> [])"
    using NamedTemporaryFile_Returns[OF tp] by simp_all
  have ne: "tmp_py \<noteq> tmp_json"
    using f2(2) f3(1) by auto
  have frame: "files w' p = files w p"
    if "dont_write_bytecode env \<or> p \<noteq> cache_from_source (cache_tag env) tmp_py" for p
  proof (cases "p = tmp_json \<or> p = tmp_py")
    case True
    then show ?thesis
      using f1 f2 f3 ne by (auto simp: w' close_delete_def)
  next
    case False
    then have "files w4 p = files w3 p"
      using inner_body_files[OF inner _ that] by simp
    with False show ?thesis
      using f1 f2 f3 by (simp add: w' close_delete_def)
  qed
  show ?thesis
    using frame by (simp add: w' close_delete_def)
qed


lemma NamedTemporaryFile_console:
  "NamedTemporaryFile suffix w = (r, w') \<Longrightarrow> console w' = console w"
  by (auto simp: NamedTemporaryFile_def split: option.splits)

lemma json_dump_console:
  "json_dump env x tmp_json w = (r, w') \<Longrightarrow> console w' = console w"
  by (auto simp: json_dump_def split: sum.splits)

lemma import_model_raises:
  assumes "run_source env (fst (os_path_splitext (snd (os_path_split file_path)))) file_path
             (files w file_path) = Raises e"
  shows "fst (import_model_from_generated_file env file_path w) = Raises e"
  using assms
  by (cases "os_path_split file_path")
     (simp add: import_model_from_generated_file_def and_then_def load_module_def Let_def)

lemma import_model_returns:
  assumes "run_source env (fst (os_path_splitext (snd (os_path_split file_path)))) file_path
             (files w file_path) = Returns ns"
  shows "fst (import_model_from_generated_file env file_path w) =
           Returns (getattr_default \<lparr>mod_name = fst (os_path_splitext (snd (os_path_split file_path))),
                                     mod_dict = ns\<rparr> ''Model'' PyNone)"
  using assms
  by (cases "os_path_split file_path")
     (simp add: import_model_from_generated_file_def and_then_def load_module_def Let_def)

subsection \<open>The search path\<close>

lemma import_model_sys_path:
  "sys_path (snd (import_model_from_generated_file env file_path w)) =
     (if fst (os_path_split file_path) \<in> set (sys_path w) then sys_path w
      else sys_path w @ [fst (os_path_split file_path)])"
proof -
  have *: "sys_path (snd (and_then (load_module env n p)
                            (\<lambda>module w2. (Returns (f module), w2)) w0)) = sys_path w0"
    for n p f w0
    by (cases "load_module env n p w0")
       (auto simp: and_then_def split: outcome.splits dest: load_module_world)
  show ?thesis
    by (cases "os_path_split file_path") (simp add: import_model_from_generated_file_def * Let_def)
qed

lemma load_calls_sys_path:
  "\<exists>added. sys_path (load_calls env paths w) = sys_path w @ added \<and> distinct added
      \<and> set added \<inter> set (sys_path w) = {}
      \<and> set added \<subseteq> (\<lambda>p. fst (os_path_split p)) ` set paths"
proof (induction paths arbitrary: w)
  case Nil
  show ?case by simp
next
  case (Cons p paths)
  let ?w = "snd (import_model_from_generated_file env p w)"
  obtain added where a: "sys_path (load_calls env paths ?w) = sys_path ?w @ added"
    "distinct added" "set added \<inter> set (sys_path ?w) = {}"
    "set added \<subseteq> (\<lambda>p. fst (os_path_split p)) ` set paths"
    using Cons.IH[of ?w] by blast
  show ?case
  proof (cases "fst (os_path_split p) \<in> set (sys_path w)")
    case True
    then have "sys_path ?w = sys_path w"
      by (simp add: import_model_sys_path)
    with a show ?thesis
      by (intro exI[of _ added]) auto
  next
    case False
    then have "sys_path ?w = sys_path w @ [fst (os_path_split p)]"
      by (simp add: import_model_sys_path)
    with a False show ?thesis
      by (intro exI[of _ "fst (os_path_split p) # added"]) auto
  qed
qed

section \<open>The claims\<close>

subsection \<open>C1: the external tool fails\<close>

text \<open>
  C1 says that, when the external tool is unavailable or exits with an error,
  \<^verbatim>\<open>create_pydantic_model\<close> gives its caller the failure kind \<^verbatim>\<open>GenerationFailed\<close> and no
  other result. It has no such result. With a tool that is not found (the shell exits
  with 127 and nothing is written) the call returns the pair \<^verbatim>\<open>(None, "")\<close>, the very
  pair it returns after a successful run of the tool that produced an empty unit.
\<close>

theorem generation_failure_counterexample:
  "fst (create_pydantic_model (demo_env (Exited 127 None)) ''{}'' demo_world) = Returns (PyNone, [])
   \<and> fst (create_pydantic_model (demo_env (Exited 0 (Some []))) ''{}'' demo_world) = Returns (PyNone, [])"
  by (simp add: run_defs getmembers_isclass_def)

text \<open>
  C1, as amended: when the external tool exits without having written anything, so that
  the generated file is still empty, and an empty file loads as a module without
  bindings, then \<^verbatim>\<open>create_pydantic_model\<close> raises nothing and returns the pair
  \<^verbatim>\<open>(None, "")\<close>, whatever the return code of the tool was. A return code other than zero
  is caught as \<^verbatim>\<open>CalledProcessError\<close> and printed, and that is its only effect: the
  result of the call does not tell a failed generation from a successful one.
\<close>

theorem tool_error_is_logged_and_ignored:
  assumes "NamedTemporaryFile ''.json'' w = (Returns tmp_json, w1)"
    and "json_dump env jsonData tmp_json w1 = (Returns (), w2)"
    and "NamedTemporaryFile ''.py'' w2 = (Returns tmp_py, w3)"
    and tool: "shell env (codegen_command tmp_json tmp_py) (files w3) = Exited returncode None"
    and e1: "run_source env (fst (os_path_splitext (snd (os_path_split tmp_py)))) tmp_py (Some [])
               = Returns []"
    and e2: "run_source env (path_stem tmp_py) tmp_py (Some []) = Returns []"
  shows "fst (create_pydantic_model env jsonData w) = Returns (PyNone, [])
         \<and> console (snd (create_pydantic_model env jsonData w)) =
             console w @
             [if returncode \<noteq> 0
              then MsgExc ''An error occurred while generating the pydantic model:''
                     (CalledProcessError returncode (codegen_command tmp_json tmp_py))
              else Msg ''model generation successful'']"
proof -
  let ?line = "if returncode \<noteq> 0
      then MsgExc ''An error occurred while generating the pydantic model:''
             (CalledProcessError returncode (codegen_command tmp_json tmp_py))
      else Msg ''model generation successful''"
  have tp: "files w3 tmp_py = Some []"
    using NamedTemporaryFile_Returns[OF assms(3)] by simp
  have c3: "console w3 = console w"
    using NamedTemporaryFile_console[OF assms(1)] json_dump_console[OF assms(2)]
      NamedTemporaryFile_console[OF assms(3)] by simp
  have gen: "run_codegen env tmp_json tmp_py w3 = (Returns (), print ?line w3)"
    using tool by (simp add: run_codegen_def subprocess_run_def)
  let ?w4 = "print ?line w3"
  have f4: "files ?w4 tmp_py = Some []"
    using tp by (simp add: print_def)
  obtain r5 w5 where imp: "import_model_from_generated_file env tmp_py ?w4 = (r5, w5)"
    by (cases "import_model_from_generated_file env tmp_py ?w4")
  have r5: "r5 = Returns PyNone"
    using import_model_returns[of env tmp_py ?w4 "[]"] e1 f4 imp
    by (simp add: getattr_default_def)
  have w5: "files w5 tmp_py = Some []" "console w5 = console ?w4"
    using import_model_world[OF imp] f4 tmp_py_not_cache[OF assms(3)]
      write_cache_files[of env tmp_py tmp_py ?w4]
    by simp_all
  have gc: "get_classes_from_module env tmp_py BaseModel w5 =
              (Returns [], write_cache env tmp_py w5)"
    using e2 w5(1)
    by (simp add: get_classes_from_module_def import_module_from_path_def load_module_def
          and_then_def getmembers_isclass_def Let_def)
  have run: "create_pydantic_model env jsonData w =
      (Returns (PyNone, []),
       close_delete tmp_json (close_delete tmp_py (write_cache env tmp_py w5)))"
    by (simp add: create_pydantic_model_trace[OF assms(1-3)] and_then_def gen imp r5 gc)
  show ?thesis
    using c3 w5(2) by (simp add: run close_delete_def print_def)
qed

theorem tool_error_is_logged_and_ignored_witness:
  "fst (create_pydantic_model (demo_env (Exited 127 None)) ''{}'' demo_world) = Returns (PyNone, [])
   \<and> console (snd (create_pydantic_model (demo_env (Exited 127 None)) ''{}'' demo_world)) =
       [MsgExc ''An error occurred while generating the pydantic model:''
          (CalledProcessError 127 ''datamodel-codegen --input /srv/tmpm.json --output /srv/tmpa.py'')]"
  using tool_error_is_logged_and_ignored[OF demo_tmp_json demo_json_dump demo_tmp_py,
      of "Exited 127 None" 127]
  by (simp add: demo_env_def demo_exec_def demo_compile_def run_source_def demo_world_def
        codegen_command_def)

subsection \<open>C2: the order of the class descriptors\<close>

text \<open>
  C2 says that the descriptors come in the order in which the unit declares its
  classes. They do not: \<^verbatim>\<open>inspect.getmembers\<close> sorts the members by name. The unit of
  the concrete environment declares \<^verbatim>\<open>Model\<close> before \<^verbatim>\<open>Item\<close>, and the text describes
  \<^verbatim>\<open>Item\<close> before \<^verbatim>\<open>Model\<close>.
\<close>

theorem declaration_order_counterexample:
  "map fst (class_members (mod_dict demo_module)) = [''Model'', ''BaseModel'', ''Item'']
   \<and> get_classes_from_module (demo_env NeverExits) ''/srv/tmpm.py'' BaseModel demo_world =
       (Returns ''\<newline>class Item(BaseModel):\<newline>  a: int\<newline>\<newline>class Model(BaseModel):\<newline>  question: str\<newline>  tags: List\<newline>  note: str | None\<newline>'',
        demo_world_loaded)"
  by (simp add: get_classes_from_module_loaded[OF demo_load] demo_qualifying)
     (simp add: demo_module_def demo_source_def descriptor_def header_line_def field_line_def
        field_type_name_def NL_def BaseModel_def demo_Item_def demo_Model_def)

text \<open>
  C2, as amended: for every unit that loads, the descriptors that
  \<^verbatim>\<open>get_classes_from_module\<close> emits are those of the qualifying members in ascending order
  of the names under which the unit binds them. The order is stable: it does not depend
  on the order of declaration, so two units with the same name and the same bindings,
  made in any order, give the same sequence of descriptors.
\<close>

theorem get_classes_from_module_sorted_by_name:
  assumes "import_module_from_path env path w = (Returns module, w1)"
  shows "get_classes_from_module env path base_class w =
           (Returns (concat (map (\<lambda>d. NL @ descriptor base_class d) (qualifying module base_class))), w1)
         \<and> sorted (map fst (qualifying module base_class))
         \<and> (\<forall>other. mod_name other = mod_name module \<and> set (mod_dict other) = set (mod_dict module)
               \<and> distinct (map fst (mod_dict other)) \<and> distinct (map fst (mod_dict module))
               \<longrightarrow> qualifying other base_class = qualifying module base_class)"
  using get_classes_from_module_loaded[OF assms] sorted_qualifying qualifying_permutation
  by blast

theorem get_classes_from_module_sorted_by_name_witness:
  "import_module_from_path (demo_env NeverExits) ''/srv/tmpm.py'' demo_world =
     (Returns demo_module, demo_world_loaded)
   \<and> map fst (qualifying demo_module BaseModel) = [''Item'', ''Model'']
   \<and> sorted (map fst (qualifying demo_module BaseModel))
   \<and> qualifying \<lparr>mod_name = ''tmpm'', mod_dict = rev (demo_source ''tmpm'')\<rparr> BaseModel
       = qualifying demo_module BaseModel"
proof -
  note t = get_classes_from_module_sorted_by_name[OF demo_load, of NeverExits BaseModel]
  note perm = t[THEN conjunct2, THEN conjunct2, THEN spec,
      of "\<lparr>mod_name = ''tmpm'', mod_dict = rev (demo_source ''tmpm'')\<rparr>"]
  have "qualifying \<lparr>mod_name = ''tmpm'', mod_dict = rev (demo_source ''tmpm'')\<rparr> BaseModel
       = qualifying demo_module BaseModel"
    by (rule mp[OF perm]) (auto simp: demo_module_def demo_source_def)
  moreover note t[THEN conjunct2, THEN conjunct1]
  ultimately show ?thesis
    by (simp add: demo_load demo_qualifying)
qed

subsection \<open>C3: what a call leaves in the working directory\<close>




subsection \<open>C4: the generated file does not load\<close>

text \<open>
  C4 says that a source file that cannot be loaded is reported as the failure value
  \<^verbatim>\<open>LoadFailed\<close> and that no exception leaves the pipeline. Nothing catches what
  \<^verbatim>\<open>exec_module\<close> raises: with a tool that writes the text \<^verbatim>\<open>class (\<close>, the call raises
  \<^verbatim>\<open>SyntaxError\<close>.
\<close>

theorem load_failure_counterexample:
  "fst (create_pydantic_model (demo_env (Exited 0 (Some ''class (''))) ''{}'' demo_world) = Raises SyntaxError"
  by (simp add: run_defs)

text \<open>
  C4, as amended: when loading the file raises an exception, be it that the file is
  missing, that its text does not compile or that executing it raises, the same
  exception leaves \<^verbatim>\<open>import_model_from_generated_file\<close>; in the pipeline it leaves
  \<^verbatim>\<open>create_pydantic_model\<close> as well, after both temporary files were deleted. No failure
  value is returned.
\<close>

theorem load_failure_propagates:
  assumes bad: "run_source env (fst (os_path_splitext (snd (os_path_split file_path)))) file_path
                  (files w file_path) = Raises e"
  shows "fst (import_model_from_generated_file env file_path w) = Raises e
         \<and> (\<forall>jsonData w0 tmp_json w1 w2 w3.
               NamedTemporaryFile ''.json'' w0 = (Returns tmp_json, w1)
               \<and> json_dump env jsonData tmp_json w1 = (Returns (), w2)
               \<and> NamedTemporaryFile ''.py'' w2 = (Returns file_path, w3)
               \<and> run_codegen env tmp_json file_path w3 = (Returns (), w)
               \<longrightarrow> fst (create_pydantic_model env jsonData w0) = Raises e
                   \<and> files (snd (create_pydantic_model env jsonData w0)) tmp_json = None
                   \<and> files (snd (create_pydantic_model env jsonData w0)) file_path = None)"
proof (intro conjI allI impI)
  show r: "fst (import_model_from_generated_file env file_path w) = Raises e"
    using bad by (rule import_model_raises)
  fix jsonData w0 tmp_json w1 w2 w3
  assume t: "NamedTemporaryFile ''.json'' w0 = (Returns tmp_json, w1)
               \<and> json_dump env jsonData tmp_json w1 = (Returns (), w2)
               \<and> NamedTemporaryFile ''.py'' w2 = (Returns file_path, w3)
               \<and> run_codegen env tmp_json file_path w3 = (Returns (), w)"
  then have tj: "NamedTemporaryFile ''.json'' w0 = (Returns tmp_json, w1)"
    and jd: "json_dump env jsonData tmp_json w1 = (Returns (), w2)"
    and tp: "NamedTemporaryFile ''.py'' w2 = (Returns file_path, w3)"
    by simp_all
  obtain w5 where imp: "import_model_from_generated_file env file_path w = (Raises e, w5)"
    using r by (cases "import_model_from_generated_file env file_path w") simp
  show raises: "fst (create_pydantic_model env jsonData w0) = Raises e"
    using t imp by (simp add: create_pydantic_model_trace[OF tj jd tp] and_then_def)
  have "create_pydantic_model env jsonData w0 =
      (fst (create_pydantic_model env jsonData w0), snd (create_pydantic_model env jsonData w0))"
    by simp
  note f = create_pydantic_model_frame[OF tj jd tp this]
  from f raises show "files (snd (create_pydantic_model env jsonData w0)) tmp_json = None"
    by simp
  from f raises show "files (snd (create_pydantic_model env jsonData w0)) file_path = None"
    by simp
qed

theorem load_failure_propagates_witness:
  "fst (create_pydantic_model (demo_env (Exited 0 (Some ''class (''))) ''{}'' demo_world)
     = Raises SyntaxError
   \<and> files (snd (create_pydantic_model (demo_env (Exited 0 (Some ''class (''))) ''{}'' demo_world))
       ''/srv/tmpm.json'' = None
   \<and> files (snd (create_pydantic_model (demo_env (Exited 0 (Some ''class (''))) ''{}'' demo_world))
       ''/srv/tmpa.py'' = None
   \<and> fst (create_pydantic_model (demo_env (Exited 1 (Some ''import missing''))) ''{}'' demo_world)
     = Raises ImportError
   \<and> files (snd (create_pydantic_model (demo_env (Exited 1 (Some ''import missing''))) ''{}'' demo_world))
       ''/srv/tmpa.py'' = None"
proof -
  have run: "fst (create_pydantic_model (demo_env (Exited rc (Some src))) ''{}'' demo_world) = Raises e
      \<and> files (snd (create_pydantic_model (demo_env (Exited rc (Some src))) ''{}'' demo_world))
            ''/srv/tmpm.json'' = None
      \<and> files (snd (create_pydantic_model (demo_env (Exited rc (Some src))) ''{}'' demo_world))
            ''/srv/tmpa.py'' = None"
    if "run_source (demo_env (Exited rc (Some src))) ''tmpa'' ''/srv/tmpa.py'' (Some src) = Raises e"
    for rc src e
  proof -
    let ?env = "demo_env (Exited rc (Some src))"
    let ?w4 = "snd (run_codegen ?env ''/srv/tmpm.json'' ''/srv/tmpa.py'' demo_w3)"
    have gen: "run_codegen ?env ''/srv/tmpm.json'' ''/srv/tmpa.py'' demo_w3 = (Returns (), ?w4)"
      by (simp add: run_codegen_def subprocess_run_def demo_env_def Let_def)
    have "files ?w4 ''/srv/tmpa.py'' = Some src"
      by (simp add: run_codegen_def subprocess_run_def demo_env_def print_def Let_def)
    moreover have "fst (os_path_splitext (snd (os_path_split ''/srv/tmpa.py''))) = ''tmpa''"
      by (simp add: path_defs Let_def)
    ultimately have bad: "run_source ?env (fst (os_path_splitext (snd (os_path_split ''/srv/tmpa.py''))))
        ''/srv/tmpa.py'' (files ?w4 ''/srv/tmpa.py'') = Raises e"
      using that by simp
    show ?thesis
      using load_failure_propagates[OF bad, THEN conjunct2, rule_format,
          of demo_world "''/srv/tmpm.json''" demo_w1 "''{}''" demo_w2 demo_w3]
        demo_tmp_json demo_json_dump demo_tmp_py gen
      by simp
  qed
  have b1: "run_source (demo_env (Exited 0 (Some ''class (''))) ''tmpa'' ''/srv/tmpa.py''
              (Some ''class ('') = Raises SyntaxError"
    by (simp add: run_source_def demo_env_def demo_compile_def)
  have b2: "run_source (demo_env (Exited 1 (Some ''import missing''))) ''tmpa'' ''/srv/tmpa.py''
              (Some ''import missing'') = Raises ImportError"
    by (simp add: run_source_def demo_env_def demo_compile_def demo_exec_def)
  show ?thesis
    using run[OF b1] run[OF b2] by simp
qed

subsection \<open>C5: the call waits for the external tool\<close>

text \<open>
  C5 says that the tool runs under a bounded timeout and cannot block the caller
  without bound. \<^verbatim>\<open>subprocess.run\<close> is called without \<^verbatim>\<open>timeout\<close>: with a tool that
  never exits, the call never comes back.
\<close>

theorem unbounded_wait_counterexample:
  "fst (create_pydantic_model (demo_env NeverExits) ''{}'' demo_world) = Blocks"
  by (simp add: run_defs)

text \<open>
  C5, as amended: the external tool is invoked without a timeout, and the call waits
  until the tool exits. When the tool exits, with whatever return code, the generation
  step returns. When the tool never exits, \<^verbatim>\<open>create_pydantic_model\<close> never comes back;
  the subprocess is not terminated, and both temporary files stay in the working
  directory.
\<close>

theorem create_pydantic_model_waits_for_tool:
  assumes "NamedTemporaryFile ''.json'' w = (Returns tmp_json, w1)"
    and "json_dump env jsonData tmp_json w1 = (Returns (), w2)"
    and "NamedTemporaryFile ''.py'' w2 = (Returns tmp_py, w3)"
  shows "(shell env (codegen_command tmp_json tmp_py) (files w3) = NeverExits \<longrightarrow>
            create_pydantic_model env jsonData w = (Blocks, w3)
            \<and> files w3 tmp_json \<noteq> None \<and> files w3 tmp_py \<noteq> None)
         \<and> (\<forall>returncode written.
              shell env (codegen_command tmp_json tmp_py) (files w3) = Exited returncode written \<longrightarrow>
              fst (run_codegen env tmp_json tmp_py w3) = Returns ())"
proof -
  have tp: "files w3 tmp_py = Some []" "files w3 = (files w2)(tmp_py \<mapsto> [])" "files w2 tmp_py = None"
    using NamedTemporaryFile_Returns[OF assms(3)] by simp_all
  have "files w2 tmp_json \<noteq> None"
    using assms(2) by (auto simp: json_dump_def split: sum.splits)
  with tp have tj: "files w3 tmp_json \<noteq> None" by auto
  have blocks: "shell env (codegen_command tmp_json tmp_py) (files w3) = NeverExits \<Longrightarrow>
      run_codegen env tmp_json tmp_py w3 = (Blocks, w3)"
    by (simp add: run_codegen_def subprocess_run_def)
  have exits: "shell env (codegen_command tmp_json tmp_py) (files w3) = Exited returncode written \<Longrightarrow>
      fst (run_codegen env tmp_json tmp_py w3) = Returns ()" for returncode written
    by (simp add: run_codegen_def subprocess_run_def Let_def)
  show ?thesis
    using tp(1) tj exits
    by (auto simp: create_pydantic_model_trace[OF assms] and_then_def dest!: blocks)
qed

theorem create_pydantic_model_waits_for_tool_witness:
  "create_pydantic_model (demo_env NeverExits) ''{}'' demo_world = (Blocks, demo_w3)
   \<and> files demo_w3 ''/srv/tmpm.json'' = Some ''{}'' \<and> files demo_w3 ''/srv/tmpa.py'' = Some []"
  using create_pydantic_model_waits_for_tool[OF demo_tmp_json demo_json_dump demo_tmp_py, of NeverExits]
  by (simp add: demo_env_def demo_w3_def demo_w2_def demo_w1_def)

subsection \<open>C6: the rendering of a descriptor\<close>

text \<open>
  C6 says that the descriptor of every qualifying class has the header line
  \<^verbatim>\<open>class <class_name>(<base_name>):\<close>, where \<open>class_name\<close> is the declared name of the
  class. The loop prints the name of the binding that \<^verbatim>\<open>getmembers\<close> gives, and never
  reads \<^verbatim>\<open>__name__\<close> of the class. In a unit that declares \<^verbatim>\<open>Model\<close> and then binds
  \<^verbatim>\<open>Alias = Model\<close>, the one class \<^verbatim>\<open>Model\<close> is described twice, the first time under the
  header \<^verbatim>\<open>class Alias(BaseModel):\<close>.
\<close>

theorem alias_header_counterexample:
  "mod_dict \<lparr>mod_name = ''tmpq'', mod_dict = demo_alias_source ''tmpq''\<rparr> =
     [(''BaseModel'', PyClass BaseModel), (''Model'', PyClass (demo_Model ''tmpq'')),
      (''Alias'', PyClass (demo_Model ''tmpq''))]
   \<and> cls_name (demo_Model ''tmpq'') = ''Model''
   \<and> fst (get_classes_from_module (demo_env NeverExits) ''/srv/tmpq.py'' BaseModel demo_world) =
       Returns ''\<newline>class Alias(BaseModel):\<newline>  question: str\<newline>  tags: List\<newline>  note: str | None\<newline>\<newline>class Model(BaseModel):\<newline>  question: str\<newline>  tags: List\<newline>  note: str | None\<newline>''"
  by (simp add: demo_alias_source_def demo_Model_def run_defs getmembers_isclass_def
        issubclass_def BaseModel_def field_type_name_def NL_def)

text \<open>
  C6, as amended: for every unit that loads, the text holds one descriptor for every
  binding of the unit to a qualifying class, so a class bound under several names is
  described once under each. A descriptor is the header line
  \<^verbatim>\<open>class <name>(<base_name>):\<close> followed, for each entry of the class's
  \<^verbatim>\<open>__annotations__\<close> in insertion order and unsorted, by the line made of two blanks,
  the field name, a colon, a blank and the type label. \<open>name\<close> is the name of the
  binding; it is the declared name of the class whenever the class is bound under its
  declared name, as a class statement binds it. \<open>base_name\<close> is the \<^verbatim>\<open>__name__\<close> of the
  base class. One empty line stands between two descriptors; one newline also precedes
  the first.
\<close>

theorem descriptor_rendering:
  assumes "import_module_from_path env path w = (Returns module, w1)"
  shows "get_classes_from_module env path base_class w =
           (Returns (if qualifying module base_class = [] then []
                     else NL @ blank_separated (map (descriptor base_class)
                                                   (qualifying module base_class))), w1)
         \<and> (\<forall>name obj. descriptor base_class (name, obj) =
               ''class '' @ name @ ''('' @ cls_name base_class @ ''):'' @ NL @
               concat (map (\<lambda>(field_name, field_type).
                              ''  '' @ field_name @ '': '' @ field_type_name field_type @ NL)
                        (cls_annotations obj)))
         \<and> ((\<forall>(name, obj) \<in> set (qualifying module base_class). name = cls_name obj) \<longrightarrow>
               map (descriptor base_class) (qualifying module base_class) =
               map (\<lambda>(name, obj). descriptor base_class (cls_name obj, obj))
                 (qualifying module base_class))"
proof -
  have "concat (map (\<lambda>d. NL @ descriptor base_class d) (qualifying module base_class)) =
        concat (map (\<lambda>d. NL @ d) (map (descriptor base_class) (qualifying module base_class)))"
    by (simp add: comp_def)
  then have "get_classes_from_module env path base_class w =
           (Returns (if qualifying module base_class = [] then []
                     else NL @ blank_separated (map (descriptor base_class)
                                                   (qualifying module base_class))), w1)"
    using get_classes_from_module_loaded[OF assms, of base_class]
          concat_NL_blank_separated[of "map (descriptor base_class) (qualifying module base_class)"]
    by (cases "qualifying module base_class = []") simp_all
  moreover have "descriptor base_class (name, obj) =
               ''class '' @ name @ ''('' @ cls_name base_class @ ''):'' @ NL @
               concat (map (\<lambda>(field_name, field_type).
                              ''  '' @ field_name @ '': '' @ field_type_name field_type @ NL)
                        (cls_annotations obj))" for name obj
    by (simp add: descriptor_def header_line_def field_line_def)
  moreover have "(\<forall>(name, obj) \<in> set (qualifying module base_class). name = cls_name obj) \<longrightarrow>
               map (descriptor base_class) (qualifying module base_class) =
               map (\<lambda>(name, obj). descriptor base_class (cls_name obj, obj))
                 (qualifying module base_class)"
    by auto
  ultimately show ?thesis
    by blast
qed

theorem descriptor_rendering_witness:
  "import_module_from_path (demo_env (Exited 0 None)) ''/srv/tmpm.py'' demo_world =
     (Returns demo_module, demo_world_loaded)
   \<and> get_classes_from_module (demo_env (Exited 0 None)) ''/srv/tmpm.py'' BaseModel demo_world =
     (Returns (NL @ ''class Item(BaseModel):'' @ NL @ ''  a: int'' @ NL @ NL @
               ''class Model(BaseModel):'' @ NL @ ''  question: str'' @ NL @ ''  tags: List'' @ NL @
               ''  note: str | None'' @ NL),
      demo_world_loaded)
   \<and> map (descriptor BaseModel) (qualifying demo_module BaseModel) =
       map (\<lambda>(name, obj). descriptor BaseModel (cls_name obj, obj)) (qualifying demo_module BaseModel)"
proof -
  note t = descriptor_rendering[OF demo_load, of "Exited 0 None" BaseModel]
  have "get_classes_from_module (demo_env (Exited 0 None)) ''/srv/tmpm.py'' BaseModel demo_world =
     (Returns (NL @ blank_separated (map (descriptor BaseModel)
                 [(''Item'', demo_Item ''tmpm''), (''Model'', demo_Model ''tmpm'')])), demo_world_loaded)"
    using t[THEN conjunct1] by (simp add: demo_qualifying)
  then have out: "get_classes_from_module (demo_env (Exited 0 None)) ''/srv/tmpm.py'' BaseModel demo_world =
     (Returns (NL @ ''class Item(BaseModel):'' @ NL @ ''  a: int'' @ NL @ NL @
               ''class Model(BaseModel):'' @ NL @ ''  question: str'' @ NL @ ''  tags: List'' @ NL @
               ''  note: str | None'' @ NL),
      demo_world_loaded)"
    by (simp add: descriptor_def header_line_def field_line_def field_type_name_def
          demo_Item_def demo_Model_def BaseModel_def)
  have "\<forall>(name, obj) \<in> set (qualifying demo_module BaseModel). name = cls_name obj"
    by (simp add: demo_qualifying demo_Item_def demo_Model_def)
  with t[THEN conjunct2, THEN conjunct2]
  have "map (descriptor BaseModel) (qualifying demo_module BaseModel) =
       map (\<lambda>(name, obj). descriptor BaseModel (cls_name obj, obj)) (qualifying demo_module BaseModel)"
    by (rule mp)
  with out show ?thesis
    by (simp add: demo_load)
qed

subsection \<open>C7: which classes are described\<close>



subsection \<open>C8: a unit without \<^verbatim>\<open>Model\<close>\<close>

text \<open>
  C8: when the file loads and its namespace has no binding named \<^verbatim>\<open>Model\<close>,
  \<^verbatim>\<open>import_model_from_generated_file\<close> returns \<^verbatim>\<open>None\<close> and raises nothing. The pipeline
  goes on: when the introspection returns a text, \<^verbatim>\<open>create_pydantic_model\<close> returns
  \<^verbatim>\<open>None\<close> together with that text, and so tells its caller that the model is absent.
\<close>

theorem absent_Model_gives_None:
  assumes load: "run_source env (fst (os_path_splitext (snd (os_path_split file_path)))) file_path
                   (files w file_path) = Returns ns"
    and absent: "''Model'' \<notin> fst ` set ns"
  shows "fst (import_model_from_generated_file env file_path w) = Returns PyNone
         \<and> (\<forall>jsonData w0 tmp_json w1 w2 w3 class_string w6.
               NamedTemporaryFile ''.json'' w0 = (Returns tmp_json, w1)
               \<and> json_dump env jsonData tmp_json w1 = (Returns (), w2)
               \<and> NamedTemporaryFile ''.py'' w2 = (Returns file_path, w3)
               \<and> run_codegen env tmp_json file_path w3 = (Returns (), w)
               \<and> get_classes_from_module env file_path BaseModel
                    (snd (import_model_from_generated_file env file_path w)) = (Returns class_string, w6)
               \<longrightarrow> fst (create_pydantic_model env jsonData w0) = Returns (PyNone, class_string))"
proof (intro conjI allI impI)
  have "map_of ns ''Model'' = None"
    using absent by (simp add: map_of_eq_None_iff)
  then show r: "fst (import_model_from_generated_file env file_path w) = Returns PyNone"
    using import_model_returns[OF load] by (simp add: getattr_default_def)
  fix jsonData w0 tmp_json w1 w2 w3 class_string w6
  assume t: "NamedTemporaryFile ''.json'' w0 = (Returns tmp_json, w1)
               \<and> json_dump env jsonData tmp_json w1 = (Returns (), w2)
               \<and> NamedTemporaryFile ''.py'' w2 = (Returns file_path, w3)
               \<and> run_codegen env tmp_json file_path w3 = (Returns (), w)
               \<and> get_classes_from_module env file_path BaseModel
                    (snd (import_model_from_generated_file env file_path w)) = (Returns class_string, w6)"
  obtain w5 where imp: "import_model_from_generated_file env file_path w = (Returns PyNone, w5)"
    using r by (cases "import_model_from_generated_file env file_path w") simp
  show "fst (create_pydantic_model env jsonData w0) = Returns (PyNone, class_string)"
    using t imp
    by (simp add: create_pydantic_model_trace[of w0 tmp_json w1 env jsonData w2 file_path w3]
          and_then_def)
qed

theorem absent_Model_gives_None_witness:
  "fst (create_pydantic_model (demo_env (Exited 0 (Some ''no model''))) ''{}'' demo_world) =
     Returns (PyNone, NL @ ''class Item(BaseModel):'' @ NL @ ''  a: int'' @ NL)"
proof -
  let ?env = "demo_env (Exited 0 (Some ''no model''))"
  let ?w4 = "snd (run_codegen ?env ''/srv/tmpm.json'' ''/srv/tmpa.py'' demo_w3)"
  let ?w5 = "snd (import_model_from_generated_file ?env ''/srv/tmpa.py'' ?w4)"
  let ?w6 = "snd (get_classes_from_module ?env ''/srv/tmpa.py'' BaseModel ?w5)"
  have gen: "run_codegen ?env ''/srv/tmpm.json'' ''/srv/tmpa.py'' demo_w3 = (Returns (), ?w4)"
    by (simp add: run_codegen_def subprocess_run_def demo_env_def)
  have load: "run_source ?env (fst (os_path_splitext (snd (os_path_split ''/srv/tmpa.py'')))) ''/srv/tmpa.py''
                  (files ?w4 ''/srv/tmpa.py'') = Returns [(''Item'', PyClass (demo_Item ''tmpa''))]"
    by (simp add: run_codegen_def subprocess_run_def demo_env_def demo_exec_def demo_compile_def
          run_source_def print_def path_defs Let_def)
  have "fst (get_classes_from_module ?env ''/srv/tmpa.py'' BaseModel ?w5) =
              Returns (NL @ ''class Item(BaseModel):'' @ NL @ ''  a: int'' @ NL)"
    by (simp add: run_defs getmembers_isclass_def issubclass_def demo_Item_def BaseModel_def
          field_type_name_def demo_w3_def demo_w2_def demo_w1_def)
  then have gc: "get_classes_from_module ?env ''/srv/tmpa.py'' BaseModel ?w5 =
              (Returns (NL @ ''class Item(BaseModel):'' @ NL @ ''  a: int'' @ NL), ?w6)"
    by (simp add: prod_eq_iff)
  note t = absent_Model_gives_None[OF load]
  show ?thesis
    using t[THEN conjunct2, rule_format, of demo_world "''/srv/tmpm.json''" demo_w1 "''{}''" demo_w2
            demo_w3 "NL @ ''class Item(BaseModel):'' @ NL @ ''  a: int'' @ NL" ?w6]
      demo_tmp_json demo_json_dump demo_tmp_py gen gc
    by simp
qed

subsection \<open>C9: the search path only grows\<close>

text \<open>
  C9: a call of \<^verbatim>\<open>import_model_from_generated_file\<close> leaves \<^verbatim>\<open>sys.path\<close> as it is when the
  directory of the file is already on it, and appends that directory otherwise. After
  any sequence of calls \<^verbatim>\<open>sys.path\<close> is the old path followed by added entries; the added
  entries are directories of the loaded files, none was on the old path, and none is
  added twice. No entry is removed.
\<close>

theorem sys_path_append_only:
  "sys_path (snd (import_model_from_generated_file env file_path w)) =
     (if fst (os_path_split file_path) \<in> set (sys_path w) then sys_path w
      else sys_path w @ [fst (os_path_split file_path)])
   \<and> (\<exists>added. sys_path (load_calls env paths w) = sys_path w @ added \<and> distinct added
         \<and> set added \<inter> set (sys_path w) = {}
         \<and> set added \<subseteq> (\<lambda>p. fst (os_path_split p)) ` set paths)"
  using import_model_sys_path load_calls_sys_path by blast

theorem sys_path_append_only_witness:
  "sys_path (load_calls (demo_env NeverExits)
       [''/srv/tmpm.py'', ''/usr/lib/x.py'', ''/srv/missing.py'', ''/opt/gen/y.py'', ''/srv/tmpm.py'']
       demo_world) = [''/usr/lib'', ''/srv'', ''/opt/gen'']"
proof -
  let ?paths = "[''/srv/tmpm.py'', ''/usr/lib/x.py'', ''/srv/missing.py'', ''/opt/gen/y.py'', ''/srv/tmpm.py'']"
  note t = sys_path_append_only[of "demo_env NeverExits" "''/srv/tmpm.py''" demo_world ?paths]
  have "sys_path (snd (import_model_from_generated_file (demo_env NeverExits) ''/srv/tmpm.py'' demo_world))
          = [''/usr/lib'', ''/srv'']"
    using t[THEN conjunct1]
    by (simp add: os_path_split_def rfind_def rstrip_def demo_world_def Let_def)
  then show ?thesis
    by (simp add: run_defs)
qed

subsection \<open>C10: \<^verbatim>\<open>get_workflow_config\<close> on a cache miss\<close>

text \<open>
  C10: when the cache has no entry for the key of the given id and the database holds a
  configuration with that id, \<^verbatim>\<open>get_workflow_config\<close> returns \<^verbatim>\<open>None\<close>: the object fetched
  from the database is dropped. A result other than \<^verbatim>\<open>None\<close> is the value that the cache
  held under the key, and the cache is never written.
\<close>

theorem get_workflow_config_discards_database_object:
  "(cache (''workflow_config_'' @ str_of workflow_config) = None \<and> db workflow_config = Some obj \<longrightarrow>
      get_workflow_config str_of db workflow_config cache = (Returns None, cache))
   \<and> (get_workflow_config str_of db workflow_config cache = (Returns (Some c), cache') \<longrightarrow>
        cache (''workflow_config_'' @ str_of workflow_config) = Some c)
   \<and> snd (get_workflow_config str_of db workflow_config cache) = cache"
  by (auto simp: get_workflow_config_def get_object_or_404_def Let_def split: option.splits)

theorem get_workflow_config_discards_database_object_witness:
  "get_workflow_config (\<lambda>s. s) [''7'' \<mapsto> ''config 7''] ''7'' Map.empty
     = (Returns None, Map.empty)
   \<and> get_workflow_config (\<lambda>s. s) [''7'' \<mapsto> ''config 7''] ''7''
       [''workflow_config_7'' \<mapsto> ''cached 7'']
     = (Returns (Some ''cached 7''), [''workflow_config_7'' \<mapsto> ''cached 7''])
   \<and> get_workflow_config (\<lambda>s. s) [''7'' \<mapsto> ''config 7''] ''8'' Map.empty
     = (Raises Http404, Map.empty)"
proof -
  have miss: "get_workflow_config (\<lambda>s. s) [''7'' \<mapsto> ''config 7''] ''7'' Map.empty
     = (Returns None, Map.empty)"
    using get_workflow_config_discards_database_object[of Map.empty "\<lambda>s. s" "''7''"
      "[''7'' \<mapsto> ''config 7'']" "''config 7''"]
    by simp
  have hit: "get_workflow_config (\<lambda>s. s) [''7'' \<mapsto> ''config 7''] ''7''
       [''workflow_config_7'' \<mapsto> ''cached 7'']
     = (Returns (Some ''cached 7''), [''workflow_config_7'' \<mapsto> ''cached 7''])"
    by (simp add: get_workflow_config_def Let_def)
  have "[''workflow_config_7'' \<mapsto> ''cached 7''] (''workflow_config_'' @ ''7'') = Some ''cached 7''"
    using hit get_workflow_config_discards_database_object[of
        "[''workflow_config_7'' \<mapsto> ''cached 7'']" "\<lambda>s. s" "''7''"
        "[''7'' \<mapsto> ''config 7'']" "''config 7''" "''cached 7''"
        "[''workflow_config_7'' \<mapsto> ''cached 7'']"]
    by blast
  with miss hit show ?thesis
    by (simp add: get_workflow_config_def get_object_or_404_def Let_def)
qed

end
